theory Spec2Isabelle
  imports Main "HOL-Library.Sublist"
begin

section \<open>The MCP bridge tool (agentflow/tools/mcp_bridge/tool.py)\<close>

text \<open>
  The bridge is the class \<^verbatim>\<open>MCP_Bridge_Tool\<close>. Its fields become a record, its
  methods functions that take the object and return the updated one. The two transport
  libraries (the MCP stdio client and httpx) are collaborators: what they answer, how
  long each awaited operation takes and when they raise is given by an environment
  record, so every theorem holds for every behaviour of the server.

  Python strings are modelled as \<^typ>\<open>string\<close>, a character standing for a code point
  below 256. Calls of \<^verbatim>\<open>print\<close> are left out.
\<close>

subsection \<open>Python strings: \<^verbatim>\<open>str\<close> of an integer, \<^verbatim>\<open>repr\<close> of a string and of a list\<close>

abbreviation sq :: char where "sq \<equiv> CHR 0x27"
abbreviation dq :: char where "dq \<equiv> CHR 0x22"
abbreviation bsl :: char where "bsl \<equiv> CHR 0x5C"

definition digit_char :: "nat \<Rightarrow> char" where
  "digit_char n = ''0123456789abcdef'' ! (n mod 16)"

function str_nat :: "nat \<Rightarrow> string" where
  "str_nat n = (if n < 10 then [digit_char n] else str_nat (n div 10) @ [digit_char (n mod 10)])"
  by pat_completeness auto
termination
  by (relation "measure id") auto

definition str_int :: "int \<Rightarrow> string" where
  "str_int i = (if i < 0 then CHR ''-'' # str_nat (nat (- i)) else str_nat (nat i))"

definition printable :: "char \<Rightarrow> bool" where
  \<comment> \<open>\<^verbatim>\<open>str.isprintable\<close> on the code points below 256\<close>
  "printable c = (let n = (of_char c :: nat) in (32 \<le> n \<and> n < 127) \<or> (161 \<le> n \<and> n \<noteq> 173))"

definition repr_char :: "char \<Rightarrow> char \<Rightarrow> string" where
  \<comment> \<open>one character inside \<^verbatim>\<open>repr(s)\<close>, \<open>q\<close> the quote chosen for \<open>s\<close>\<close>
  "repr_char q c =
     (if c = q \<or> c = bsl then [bsl, c]
      else if c = CHR 0x09 then [bsl, CHR ''t'']
      else if c = CHR 0x0A then [bsl, CHR ''n'']
      else if c = CHR 0x0D then [bsl, CHR ''r'']
      else if \<not> printable c
        then [bsl, CHR ''x'', digit_char (of_char c div 16), digit_char (of_char c mod 16)]
      else [c])"

definition repr_quote :: "string \<Rightarrow> char" where
  "repr_quote s = (if sq \<in> set s \<and> dq \<notin> set s then dq else sq)"

definition py_repr :: "string \<Rightarrow> string" where
  "py_repr s = [repr_quote s] @ concat (map (repr_char (repr_quote s)) s) @ [repr_quote s]"

fun join_comma :: "string list \<Rightarrow> string" where
  "join_comma [] = []"
| "join_comma [x] = x"
| "join_comma (x # y # ys) = x @ '', '' @ join_comma (y # ys)"

definition py_list_repr :: "string list \<Rightarrow> string" where
  \<comment> \<open>\<^verbatim>\<open>str\<close> of a list of strings, as an f-string renders it\<close>
  "py_list_repr xs = ''['' @ join_comma (map py_repr xs) @ '']''"

subsection \<open>Dictionaries in insertion order\<close>

fun dict_set :: "'k \<Rightarrow> 'v \<Rightarrow> ('k \<times> 'v) list \<Rightarrow> ('k \<times> 'v) list" where
  "dict_set k v [] = [(k, v)]"
| "dict_set k v ((k', v') # d) =
     (if k' = k then (k, v) # d else (k', v') # dict_set k v d)"

definition dict_keys :: "('k \<times> 'v) list \<Rightarrow> 'k list" where
  "dict_keys d = map fst d"

definition dict_contains :: "'k \<Rightarrow> ('k \<times> 'v) list \<Rightarrow> bool" where
  "dict_contains k d = (k \<in> set (map fst d))"

subsection \<open>The object and its results\<close>

type_synonym schema = string

record tool_info =
  description :: string
  input_schema :: schema

type_synonym catalog = "(string \<times> tool_info) list"

type_synonym arguments = "(string \<times> string) list"

record bridge =
  server_type :: string
  server_command :: "string option"
  server_args :: "string list"
  server_url :: "string option"
  timeout :: int
  reconnect_attempts :: int
  session :: "unit option"
  http_client :: "unit option"
  available_tools :: catalog
  connection_healthy :: bool

text \<open>\<^verbatim>\<open>get_server_info\<close>; the nested \<^verbatim>\<open>config\<close> dictionary is flattened.\<close>

record server_info =
  info_type :: string
  connected :: bool
  available_tools_count :: nat
  config_command :: "string option"
  config_url :: "string option"
  config_timeout :: int

definition get_server_info :: "bridge \<Rightarrow> server_info" where
  "get_server_info b =
     \<lparr> info_type = server_type b,
       connected = connection_healthy b,
       available_tools_count = length (available_tools b),
       config_command = (if server_type b = ''stdio'' then server_command b else None),
       config_url = (if server_type b = ''http'' then server_url b else None),
       config_timeout = timeout b \<rparr>"

datatype pyvalue = PyStr string | PyEmptyDict

text \<open>The dictionary \<^verbatim>\<open>execute\<close> returns: \<^verbatim>\<open>result\<close> is present on success only,
  \<^verbatim>\<open>error\<close> on failure only.\<close>

record call_result =
  success :: bool
  result :: "pyvalue option"
  error :: "string option"
  tool_name :: string
  info :: server_info

definition succeeded :: "string \<Rightarrow> pyvalue \<Rightarrow> bridge \<Rightarrow> call_result" where
  "succeeded name v b =
     \<lparr> success = True, result = Some v, error = None, tool_name = name,
       info = get_server_info b \<rparr>"

definition failed :: "string \<Rightarrow> string \<Rightarrow> bridge \<Rightarrow> call_result" where
  "failed name msg b =
     \<lparr> success = False, result = None, error = Some msg, tool_name = name,
       info = get_server_info b \<rparr>"

definition connection_failed_msg :: string where
  "connection_failed_msg = ''Failed to connect to MCP server after multiple attempts''"

definition unknown_tool_msg :: "string \<Rightarrow> string list \<Rightarrow> string" where
  "unknown_tool_msg name keys =
     ''Tool '' @ [sq] @ name @ [sq] @ '' not found on server. Available: '' @ py_list_repr keys"

definition timeout_msg :: "int \<Rightarrow> string" where
  "timeout_msg t = ''Tool execution timed out after '' @ str_int t @ '' seconds''"

definition execution_error_msg :: "string \<Rightarrow> string" where
  "execution_error_msg e = ''Tool execution error: '' @ e"

definition execution_failed_msg :: "string \<Rightarrow> string" where
  "execution_failed_msg e = ''Execution failed: '' @ e"

subsection \<open>Construction-time validation\<close>

datatype pyexn =
    ImportError string
  | ValueError string
  | RuntimeError string
  | OverflowError string
  | TimeoutError

text \<open>\<^verbatim>\<open>str(e)\<close>.\<close>

fun exn_str :: "pyexn \<Rightarrow> string" where
  "exn_str (ImportError m) = m"
| "exn_str (ValueError m) = m"
| "exn_str (RuntimeError m) = m"
| "exn_str (OverflowError m) = m"
| "exn_str TimeoutError = []"

definition falsy :: "string option \<Rightarrow> bool" where
  \<comment> \<open>\<^verbatim>\<open>not s\<close> for an optional string: \<^verbatim>\<open>None\<close> and the empty string\<close>
  "falsy s = (s = None \<or> s = Some [])"

text \<open>\<^verbatim>\<open>_validate_config\<close>; the two module flags \<^verbatim>\<open>MCP_STDIO_AVAILABLE\<close> and
  \<^verbatim>\<open>MCP_HTTP_AVAILABLE\<close> are parameters.\<close>

definition validate_config :: "bool \<Rightarrow> bool \<Rightarrow> bridge \<Rightarrow> pyexn + unit" where
  "validate_config stdio_available http_available b =
     (if server_type b = ''stdio'' then
        (if \<not> stdio_available
           then Inl (ImportError ''MCP stdio client not available. Install with: pip install mcp'')
         else if falsy (server_command b)
           then Inl (ValueError
             ''MCP_SERVER_COMMAND environment variable is required for stdio servers'')
         else Inr ())
      else if server_type b = ''http'' then
        (if \<not> http_available
           then Inl (ImportError ''httpx not available. Install with: pip install httpx'')
         else if falsy (server_url b)
           then Inl (ValueError ''MCP_SERVER_URL environment variable is required for HTTP servers'')
         else Inr ())
      else Inl (ValueError (''Invalid MCP_SERVER_TYPE: '' @ server_type b
             @ ''. Must be '' @ [sq] @ ''stdio'' @ [sq] @ '' or '' @ [sq] @ ''http'' @ [sq])))"

text \<open>\<^verbatim>\<open>__init__\<close> from the configuration values as loaded from the environment
  (lines 131 to 136): it stores them, sets the connection state and validates.\<close>

definition init ::
  "bool \<Rightarrow> bool \<Rightarrow> string \<Rightarrow> string option \<Rightarrow> string list \<Rightarrow> string option \<Rightarrow> int \<Rightarrow> int
     \<Rightarrow> pyexn + bridge" where
  "init stdio_available http_available ty cmd args url tmo attempts =
     (let b = \<lparr> server_type = ty, server_command = cmd, server_args = args, server_url = url,
                timeout = tmo, reconnect_attempts = attempts,
                session = None, http_client = None, available_tools = [],
                connection_healthy = False \<rparr>
      in case validate_config stdio_available http_available b of
           Inl e \<Rightarrow> Inl e
         | Inr _ \<Rightarrow> Inr b)"

subsection \<open>The environment: what the transports answer\<close>

text \<open>A tool as the server lists it; a field is \<open>None\<close> when the attribute (stdio) or
  the key (http) is missing.\<close>

record raw_tool =
  raw_name :: "string option"
  raw_description :: "string option"
  raw_schema :: "schema option"

text \<open>One call of \<^verbatim>\<open>_connect_stdio\<close>, with the time each awaited operation takes.\<close>

datatype stdio_server =
    SessionSetupRaises
  | InitializeRaises nat
  | ListToolsRaises nat nat
  | ToolsListed nat nat "raw_tool list"

datatype http_body = NotJson | NotAnObject | JsonObject "raw_tool list option"

text \<open>One call of \<^verbatim>\<open>_connect_http\<close>: the duration of the POST, whether the status is
  2xx, and the body.\<close>

datatype http_server =
    ClientSetupRaises
  | PostRaises nat
  | PostResponds nat bool http_body

datatype stdio_block = TextBlock string | NoTextBlock string

datatype stdio_call = CallToolRaises nat string | CallToolReturns nat "stdio_block list"

datatype http_call =
    HttpCallRaises nat string
  | HttpCallReturns nat "string option list option"

record env =
  stdio_connects :: "nat \<Rightarrow> stdio_server"
  http_connects :: "nat \<Rightarrow> http_server"
  stdio_calls :: "string \<Rightarrow> arguments \<Rightarrow> stdio_call"
  http_calls :: "string \<Rightarrow> arguments \<Rightarrow> http_call"
  http_aclose :: "pyexn option"

subsection \<open>Running a coroutine under \<^verbatim>\<open>asyncio.wait_for\<close>\<close>

datatype event = Connect nat | Sleep nat | CallTool string arguments | Aclose

text \<open>The object, the time elapsed since \<^verbatim>\<open>wait_for\<close> started, and what has been
  done so far.\<close>

record run =
  obj :: bridge
  clock :: nat
  events :: "event list"

datatype 'a outcome = Returned 'a | Cancelled

text \<open>An awaited operation that takes \<open>d\<close> completes when it ends before the
  deadline \<open>T\<close>; otherwise the coroutine is cancelled at this \<^verbatim>\<open>await\<close>
  (\<^verbatim>\<open>CancelledError\<close>, which \<^verbatim>\<open>except Exception\<close> does not catch) and the
  state is the one reached before it. An operation that would end exactly at the
  deadline counts as cut off: the timer of \<^verbatim>\<open>wait_for\<close> was set first. No
  property below rests on that case.\<close>

definition await :: "int \<Rightarrow> nat \<Rightarrow> run \<Rightarrow> run option" where
  "await T d r = (if int (clock r + d) < T then Some (r\<lparr>clock := clock r + d\<rparr>) else None)"

definition log_event :: "event \<Rightarrow> run \<Rightarrow> run" where
  "log_event e r = r\<lparr>events := events r @ [e]\<rparr>"

definition set_healthy :: "bool \<Rightarrow> run \<Rightarrow> run" where
  "set_healthy h r = r\<lparr>obj := (obj r)\<lparr>connection_healthy := h\<rparr>\<rparr>"

definition set_tools :: "catalog \<Rightarrow> run \<Rightarrow> run" where
  "set_tools c r = r\<lparr>obj := (obj r)\<lparr>available_tools := c\<rparr>\<rparr>"

definition set_session :: "run \<Rightarrow> run" where
  "set_session r = r\<lparr>obj := (obj r)\<lparr>session := Some ()\<rparr>\<rparr>"

definition set_http_client :: "run \<Rightarrow> run" where
  "set_http_client r = r\<lparr>obj := (obj r)\<lparr>http_client := Some ()\<rparr>\<rparr>"

subsection \<open>Connecting\<close>

text \<open>The dictionary comprehensions that build the catalog; \<open>None\<close> when one raises.\<close>

fun stdio_catalog :: "raw_tool list \<Rightarrow> catalog \<Rightarrow> catalog option" where
  "stdio_catalog [] acc = Some acc"
| "stdio_catalog (t # ts) acc =
     (case raw_name t of
        None \<Rightarrow> None
      | Some n \<Rightarrow>
          (case raw_description t of
             None \<Rightarrow> None
           | Some d \<Rightarrow>
               (case raw_schema t of
                  None \<Rightarrow> None
                | Some s \<Rightarrow>
                    stdio_catalog ts (dict_set n \<lparr>description = d, input_schema = s\<rparr> acc))))"

fun http_catalog :: "raw_tool list \<Rightarrow> catalog \<Rightarrow> catalog option" where
  "http_catalog [] acc = Some acc"
| "http_catalog (t # ts) acc =
     (case raw_name t of
        None \<Rightarrow> None
      | Some n \<Rightarrow>
          http_catalog ts
            (dict_set n
               \<lparr>description = (case raw_description t of None \<Rightarrow> [] | Some d \<Rightarrow> d),
                input_schema = (case raw_schema t of None \<Rightarrow> ''{}'' | Some s \<Rightarrow> s)\<rparr>
               acc))"

definition connect_stdio :: "env \<Rightarrow> int \<Rightarrow> nat \<Rightarrow> run \<Rightarrow> bool outcome \<times> run" where
  "connect_stdio en T k r0 =
     (let r = log_event (Connect k) r0 in
      case stdio_connects en k of
        SessionSetupRaises \<Rightarrow> (Returned False, set_healthy False r)
      | InitializeRaises d \<Rightarrow>
          (case await T d (set_session r) of
             None \<Rightarrow> (Cancelled, set_session r)
           | Some r1 \<Rightarrow> (Returned False, set_healthy False r1))
      | ListToolsRaises d1 d2 \<Rightarrow>
          (case await T d1 (set_session r) of
             None \<Rightarrow> (Cancelled, set_session r)
           | Some r1 \<Rightarrow>
               (case await T d2 r1 of
                  None \<Rightarrow> (Cancelled, r1)
                | Some r2 \<Rightarrow> (Returned False, set_healthy False r2)))
      | ToolsListed d1 d2 ts \<Rightarrow>
          (case await T d1 (set_session r) of
             None \<Rightarrow> (Cancelled, set_session r)
           | Some r1 \<Rightarrow>
               (case await T d2 r1 of
                  None \<Rightarrow> (Cancelled, r1)
                | Some r2 \<Rightarrow>
                    (case stdio_catalog ts [] of
                       None \<Rightarrow> (Returned False, set_healthy False r2)
                     | Some c \<Rightarrow> (Returned True, set_healthy True (set_tools c r2))))))"

definition connect_http :: "env \<Rightarrow> int \<Rightarrow> nat \<Rightarrow> run \<Rightarrow> bool outcome \<times> run" where
  "connect_http en T k r0 =
     (let r = log_event (Connect k) r0 in
      case http_connects en k of
        ClientSetupRaises \<Rightarrow> (Returned False, set_healthy False r)
      | PostRaises d \<Rightarrow>
          (case await T d (set_http_client r) of
             None \<Rightarrow> (Cancelled, set_http_client r)
           | Some r1 \<Rightarrow> (Returned False, set_healthy False r1))
      | PostResponds d ok body \<Rightarrow>
          (case await T d (set_http_client r) of
             None \<Rightarrow> (Cancelled, set_http_client r)
           | Some r1 \<Rightarrow>
               (if \<not> ok then (Returned False, set_healthy False r1)
                else case body of
                  NotJson \<Rightarrow> (Returned False, set_healthy False r1)
                | NotAnObject \<Rightarrow> (Returned False, set_healthy False r1)
                | JsonObject tools \<Rightarrow>
                    (case http_catalog (case tools of None \<Rightarrow> [] | Some ts \<Rightarrow> ts) [] of
                       None \<Rightarrow> (Returned False, set_healthy False r1)
                     | Some c \<Rightarrow> (Returned True, set_healthy True (set_tools c r1))))))"

definition connect :: "env \<Rightarrow> int \<Rightarrow> nat \<Rightarrow> run \<Rightarrow> bool outcome \<times> run" where
  "connect en T k r =
     (if server_type (obj r) = ''stdio'' then connect_stdio en T k r else connect_http en T k r)"

definition sleep :: "int \<Rightarrow> nat \<Rightarrow> run \<Rightarrow> run option" where
  "sleep T d r = await T d (log_event (Sleep d) r)"

text \<open>The loop of \<^verbatim>\<open>_ensure_connection\<close>: \<open>n\<close> iterations are left, \<open>k\<close> is the
  loop variable \<^verbatim>\<open>attempt\<close>.\<close>

fun reconnect_loop :: "env \<Rightarrow> int \<Rightarrow> nat \<Rightarrow> nat \<Rightarrow> run \<Rightarrow> bool outcome \<times> run" where
  "reconnect_loop en T 0 k r = (Returned False, r)"
| "reconnect_loop en T (Suc n) k r =
     (case connect en T k r of
        (Cancelled, r1) \<Rightarrow> (Cancelled, r1)
      | (Returned True, r1) \<Rightarrow> (Returned True, r1)
      | (Returned False, r1) \<Rightarrow>
          (case sleep T 1 r1 of
             None \<Rightarrow> (Cancelled, log_event (Sleep 1) r1)
           | Some r2 \<Rightarrow> reconnect_loop en T n (Suc k) r2))"

definition ensure_connection :: "env \<Rightarrow> int \<Rightarrow> run \<Rightarrow> bool outcome \<times> run" where
  "ensure_connection en T r =
     (if connection_healthy (obj r) then (Returned True, r)
      else reconnect_loop en T (nat (reconnect_attempts (obj r))) 0 r)"

subsection \<open>Calling a tool\<close>

text \<open>\<open>Inl e\<close> is an exception whose \<^verbatim>\<open>str\<close> is \<open>e\<close>.\<close>

definition execute_stdio ::
  "env \<Rightarrow> int \<Rightarrow> string \<Rightarrow> arguments \<Rightarrow> run \<Rightarrow> (string + pyvalue) outcome \<times> run" where
  "execute_stdio en T name args r0 =
     (let r = log_event (CallTool name args) r0 in
      case stdio_calls en name args of
        CallToolRaises d e \<Rightarrow>
          (case await T d r of None \<Rightarrow> (Cancelled, r) | Some r1 \<Rightarrow> (Returned (Inl e), r1))
      | CallToolReturns d content \<Rightarrow>
          (case await T d r of
             None \<Rightarrow> (Cancelled, r)
           | Some r1 \<Rightarrow>
               (case content of
                  [] \<Rightarrow> (Returned (Inr PyEmptyDict), r1)
                | TextBlock t # _ \<Rightarrow> (Returned (Inr (PyStr t)), r1)
                | NoTextBlock e # _ \<Rightarrow> (Returned (Inl e), r1))))"

definition execute_http ::
  "env \<Rightarrow> int \<Rightarrow> string \<Rightarrow> arguments \<Rightarrow> run \<Rightarrow> (string + pyvalue) outcome \<times> run" where
  "execute_http en T name args r0 =
     (let r = log_event (CallTool name args) r0 in
      case http_calls en name args of
        HttpCallRaises d e \<Rightarrow>
          (case await T d r of None \<Rightarrow> (Cancelled, r) | Some r1 \<Rightarrow> (Returned (Inl e), r1))
      | HttpCallReturns d content \<Rightarrow>
          (case await T d r of
             None \<Rightarrow> (Cancelled, r)
           | Some r1 \<Rightarrow>
               (case content of
                  None \<Rightarrow> (Returned (Inr PyEmptyDict), r1)
                | Some [] \<Rightarrow> (Returned (Inl ''list index out of range''), r1)
                | Some (None # _) \<Rightarrow> (Returned (Inr PyEmptyDict), r1)
                | Some (Some t # _) \<Rightarrow> (Returned (Inr (PyStr t)), r1))))"

definition execute_async ::
  "env \<Rightarrow> int \<Rightarrow> string \<Rightarrow> arguments \<Rightarrow> run \<Rightarrow> call_result outcome \<times> run" where
  "execute_async en T name args r =
     (case ensure_connection en T r of
        (Cancelled, r1) \<Rightarrow> (Cancelled, r1)
      | (Returned False, r1) \<Rightarrow> (Returned (failed name connection_failed_msg (obj r1)), r1)
      | (Returned True, r1) \<Rightarrow>
          (if \<not> dict_contains name (available_tools (obj r1))
             then (Returned (failed name
                     (unknown_tool_msg name (dict_keys (available_tools (obj r1)))) (obj r1)), r1)
           else
             (case (if server_type (obj r1) = ''stdio'' then execute_stdio en T name args r1
                    else execute_http en T name args r1) of
                (Cancelled, r2) \<Rightarrow> (Cancelled, r2)
              | (Returned (Inr v), r2) \<Rightarrow> (Returned (succeeded name v (obj r2)), r2)
              | (Returned (Inl e), r2) \<Rightarrow>
                  (Returned (failed name (execution_error_msg e) (obj (set_healthy False r2))),
                   set_healthy False r2))))"

definition effective_timeout :: "int option \<Rightarrow> int \<Rightarrow> int" where
  \<comment> \<open>\<^verbatim>\<open>timeout or self.timeout\<close>\<close>
  "effective_timeout t d = (case t of None \<Rightarrow> d | Some v \<Rightarrow> if v = 0 then d else v)"

text \<open>The largest timeout \<^verbatim>\<open>wait_for\<close> accepts: it adds the timeout to the
  loop's clock, a float, and an integer from \<^verbatim>\<open>2**1024 - 2**970\<close> on
  does not convert to a float (\<^verbatim>\<open>OverflowError\<close>).\<close>

definition float_limit :: int where
  "float_limit = 2 ^ 1024 - 2 ^ 970"

text \<open>The \<^verbatim>\<open>try\<close> block of \<^verbatim>\<open>execute\<close>,
  \<^verbatim>\<open>asyncio.run(asyncio.wait_for(self._execute_async(...), timeout=T))\<close>: what it
  raises or returns, the object and the operations performed.
  \<^item> \<^verbatim>\<open>asyncio.run\<close> raises when the caller is inside a running event loop.
  \<^item> \<^verbatim>\<open>wait_for\<close> with a timeout that is not positive cancels the coroutine before
    it starts.
  \<^item> \<^verbatim>\<open>wait_for\<close> with a timeout that does not convert to a float raises before
    the coroutine starts.
  \<^item> Otherwise the coroutine runs, and a cancellation by the deadline surfaces as
    \<^verbatim>\<open>asyncio.TimeoutError\<close>.\<close>

definition run_coroutine ::
  "bool \<Rightarrow> env \<Rightarrow> bridge \<Rightarrow> string \<Rightarrow> arguments \<Rightarrow> int
     \<Rightarrow> (pyexn + call_result) \<times> bridge \<times> event list" where
  "run_coroutine loop_running en b name args T =
     (if loop_running
        then (Inl (RuntimeError ''asyncio.run() cannot be called from a running event loop''),
              b, [])
      else if T \<le> 0 then (Inl TimeoutError, b, [])
      else if float_limit \<le> T
        then (Inl (OverflowError ''int too large to convert to float''), b, [])
      else
        (case execute_async en T name args \<lparr>obj = b, clock = 0, events = []\<rparr> of
           (Returned res, r) \<Rightarrow> (Inr res, obj r, events r)
         | (Cancelled, r) \<Rightarrow> (Inl TimeoutError, obj r, events r)))"

text \<open>The \<^verbatim>\<open>try\<close> statement of \<^verbatim>\<open>execute\<close> with its two handlers, the one of
  \<^verbatim>\<open>asyncio.TimeoutError\<close> and the one of \<^verbatim>\<open>Exception\<close>.\<close>

definition try_execute ::
  "bool \<Rightarrow> env \<Rightarrow> bridge \<Rightarrow> string \<Rightarrow> arguments \<Rightarrow> int
     \<Rightarrow> call_result \<times> bridge \<times> event list" where
  "try_execute loop_running en b name args T =
     (case run_coroutine loop_running en b name args T of
        (Inr res, b', ev) \<Rightarrow> (res, b', ev)
      | (Inl TimeoutError, b', ev) \<Rightarrow> (failed name (timeout_msg T) b', b', ev)
      | (Inl e, b', ev) \<Rightarrow> (failed name (execution_failed_msg (exn_str e)) b', b', ev))"


text \<open>\<^verbatim>\<open>execute\<close> called from synchronous code, as the tool is meant to be called:
  the \<^verbatim>\<open>try\<close> statement under the timeout \<open>T\<close>, and the method.\<close>

definition run_with_deadline ::
  "env \<Rightarrow> bridge \<Rightarrow> string \<Rightarrow> arguments \<Rightarrow> int \<Rightarrow> call_result \<times> bridge \<times> event list" where
  "run_with_deadline en b name args T = try_execute False en b name args T"

definition execute ::
  "env \<Rightarrow> bridge \<Rightarrow> string \<Rightarrow> arguments option \<Rightarrow> int option
     \<Rightarrow> call_result \<times> bridge \<times> event list" where
  "execute en b name args t =
     (let arguments = (case args of None \<Rightarrow> [] | Some a \<Rightarrow> a);
          exec_timeout = effective_timeout t (timeout b)
      in run_with_deadline en b name arguments exec_timeout)"

subsection \<open>Shutdown\<close>

text \<open>\<^verbatim>\<open>close\<close>: the exception it raises, if any, the object and the operations
  performed. With an HTTP client it runs \<^verbatim>\<open>asyncio.run(self._http_client.aclose())\<close>,
  which raises inside a running event loop and when \<^verbatim>\<open>aclose\<close> raises; nothing
  catches that, and the assignment to the health flag is not reached.\<close>

definition close :: "bool \<Rightarrow> env \<Rightarrow> bridge \<Rightarrow> pyexn option \<times> bridge \<times> event list" where
  "close loop_running en b =
     (if http_client b \<noteq> None then
        (if loop_running
           then (Some (RuntimeError
                   ''asyncio.run() cannot be called from a running event loop''), b, [])
         else
           (case http_aclose en of
              Some e \<Rightarrow> (Some e, b, [Aclose])
            | None \<Rightarrow> (None, b\<lparr>connection_healthy := False\<rparr>, [Aclose])))
      else (None, b\<lparr>connection_healthy := False\<rparr>, []))"

subsection \<open>What the properties speak of\<close>

definition is_ValueError :: "pyexn + 'a \<Rightarrow> bool" where
  "is_ValueError r = (case r of Inl (ValueError _) \<Rightarrow> True | _ \<Rightarrow> False)"

definition is_ImportError :: "pyexn + 'a \<Rightarrow> bool" where
  "is_ImportError r = (case r of Inl (ImportError _) \<Rightarrow> True | _ \<Rightarrow> False)"

fun is_connect :: "event \<Rightarrow> bool" where
  "is_connect (Connect _) = True"
| "is_connect _ = False"

definition attempts :: "event list \<Rightarrow> nat" where
  "attempts ev = length (filter is_connect ev)"

text \<open>The operations of \<open>n\<close> failed attempts, numbered from \<open>k\<close>, each followed by
  its sleep.\<close>

fun failed_attempts :: "nat \<Rightarrow> nat \<Rightarrow> event list" where
  "failed_attempts k 0 = []"
| "failed_attempts k (Suc n) = Connect k # Sleep 1 # failed_attempts (Suc k) n"









text \<open>The catalog the server's answer to the attempt numbered \<open>k\<close> parses to, if it
  answers and the answer parses.\<close>

definition listed_catalog :: "env \<Rightarrow> string \<Rightarrow> nat \<Rightarrow> catalog option" where
  "listed_catalog en ty k =
     (if ty = ''stdio'' then
        (case stdio_connects en k of
           ToolsListed _ _ ts \<Rightarrow> stdio_catalog ts []
         | _ \<Rightarrow> None)
      else
        (case http_connects en k of
           PostResponds _ ok body \<Rightarrow>
             (if \<not> ok then None
              else case body of
                JsonObject tools \<Rightarrow> http_catalog (case tools of None \<Rightarrow> [] | Some ts \<Rightarrow> ts) []
              | _ \<Rightarrow> None)
         | _ \<Rightarrow> None))"

text \<open>A string that \<^verbatim>\<open>repr\<close> renders between quotes without escaping anything.\<close>

definition needs_no_escape :: "string \<Rightarrow> bool" where
  "needs_no_escape s =
     (list_all (\<lambda>c. printable c \<and> c \<noteq> bsl) s \<and> \<not> (sq \<in> set s \<and> dq \<in> set s))"

subsection \<open>Concrete scenarios\<close>

definition stdio_bridge :: bridge where
  "stdio_bridge =
     \<lparr> server_type = ''stdio'', server_command = Some ''echo-server'', server_args = [],
       server_url = None, timeout = 30, reconnect_attempts = 3,
       session = None, http_client = None, available_tools = [],
       connection_healthy = False \<rparr>"

definition http_bridge :: bridge where
  "http_bridge =
     \<lparr> server_type = ''http'', server_command = None, server_args = [],
       server_url = Some ''http://localhost:8000'', timeout = 30, reconnect_attempts = 3,
       session = None, http_client = Some (), available_tools = [],
       connection_healthy = False \<rparr>"

text \<open>An HTTP bridge before its first call.\<close>

definition fresh_http_bridge :: bridge where
  "fresh_http_bridge = http_bridge \<lparr> http_client := None \<rparr>"

definition echo_tool :: raw_tool where
  "echo_tool = \<lparr> raw_name = Some ''echo'', raw_description = Some ''Echo a message'',
                 raw_schema = Some ''{}'' \<rparr>"

definition echo_catalog :: catalog where
  "echo_catalog = [(''echo'', \<lparr>description = ''Echo a message'', input_schema = ''{}''\<rparr>)]"

definition healthy_bridge :: bridge where
  "healthy_bridge =
     stdio_bridge \<lparr> session := Some (), available_tools := echo_catalog,
                    connection_healthy := True \<rparr>"

text \<open>A healthy bridge whose one tool has a backslash in its name.\<close>

definition backslash_bridge :: bridge where
  "backslash_bridge =
     stdio_bridge \<lparr> session := Some (),
                    available_tools :=
                      [([CHR ''a'', bsl, CHR ''b''],
                        \<lparr>description = [], input_schema = ''{}''\<rparr>)],
                    connection_healthy := True \<rparr>"

text \<open>A server that is down: every connection attempt fails at once.\<close>

definition dead_server :: env where
  "dead_server =
     \<lparr> stdio_connects = (\<lambda>_. SessionSetupRaises),
       http_connects = (\<lambda>_. ClientSetupRaises),
       stdio_calls = (\<lambda>_ _. CallToolRaises 0 ''server is down''),
       http_calls = (\<lambda>_ _. HttpCallRaises 0 ''server is down''),
       http_aclose = None \<rparr>"

text \<open>A server that lists the echo tool and answers a call after 5 time units.\<close>

definition echo_server :: env where
  "echo_server =
     \<lparr> stdio_connects = (\<lambda>_. ToolsListed 0 0 [echo_tool]),
       http_connects = (\<lambda>_. PostResponds 0 True (JsonObject (Some [echo_tool]))),
       stdio_calls = (\<lambda>_ _. CallToolReturns 5 [TextBlock ''Echo: hi'']),
       http_calls = (\<lambda>_ _. HttpCallReturns 5 (Some [Some ''Echo: hi''])),
       http_aclose = None \<rparr>"

text \<open>A server that hangs: every handshake takes 5 time units and then fails.\<close>

definition hung_server :: env where
  "hung_server =
     \<lparr> stdio_connects = (\<lambda>_. InitializeRaises 5),
       http_connects = (\<lambda>_. PostRaises 5),
       stdio_calls = (\<lambda>_ _. CallToolRaises 0 ''server is down''),
       http_calls = (\<lambda>_ _. HttpCallRaises 0 ''server is down''),
       http_aclose = None \<rparr>"

text \<open>A server whose first connection attempt fails and whose later ones succeed.\<close>

definition flaky_server :: env where
  "flaky_server =
     \<lparr> stdio_connects = (\<lambda>k. if k = 0 then SessionSetupRaises else ToolsListed 0 0 [echo_tool]),
       http_connects =
         (\<lambda>k. if k = 0 then ClientSetupRaises
              else PostResponds 0 True (JsonObject (Some [echo_tool]))),
       stdio_calls = (\<lambda>_ _. CallToolReturns 5 [TextBlock ''Echo: hi'']),
       http_calls = (\<lambda>_ _. HttpCallReturns 5 (Some [Some ''Echo: hi''])),
       http_aclose = None \<rparr>"

text \<open>A server whose tool list is malformed: its second tool has no name.\<close>

definition malformed_server :: env where
  "malformed_server =
     \<lparr> stdio_connects = (\<lambda>_. ToolsListed 0 0 [echo_tool, echo_tool \<lparr>raw_name := None\<rparr>]),
       http_connects =
         (\<lambda>_. PostResponds 0 True (JsonObject (Some [echo_tool, echo_tool \<lparr>raw_name := None\<rparr>]))),
       stdio_calls = (\<lambda>_ _. CallToolRaises 0 ''server is down''),
       http_calls = (\<lambda>_ _. HttpCallRaises 0 ''server is down''),
       http_aclose = None \<rparr>"

text \<open>The echo server seen from a caller whose \<^verbatim>\<open>asyncio.run\<close> of
  \<^verbatim>\<open>aclose\<close> fails: the client was created in the event loop of an earlier
  call, which is closed by now.\<close>

definition closed_loop_server :: env where
  "closed_loop_server = echo_server \<lparr> http_aclose := Some (RuntimeError ''Event loop is closed'') \<rparr>"

text \<open>A server whose calls fail.\<close>

definition failing_server :: env where
  "failing_server =
     \<lparr> stdio_connects = (\<lambda>_. ToolsListed 0 0 [echo_tool]),
       http_connects = (\<lambda>_. PostResponds 0 True (JsonObject (Some [echo_tool]))),
       stdio_calls = (\<lambda>_ _. CallToolRaises 1 ''boom''),
       http_calls = (\<lambda>_ _. HttpCallRaises 1 ''boom''),
       http_aclose = None \<rparr>"

section \<open>Properties\<close>

subsection \<open>Awaiting and connecting\<close>

lemmas run_upd_defs =
  log_event_def set_healthy_def set_tools_def set_session_def set_http_client_def

lemma await_Some:
  "await T d r = Some r' \<Longrightarrow>
     obj r' = obj r \<and> events r' = events r \<and> clock r' = clock r + d \<and> int (clock r + d) < T"
  by (auto simp: await_def split: if_splits)

lemma await_None: "await T d r = None \<longleftrightarrow> T \<le> int (clock r + d)"
  by (auto simp: await_def)

lemma connect_stdio_catalog:
  "connect_stdio en T k r = (out, r') \<Longrightarrow>
     (out \<noteq> Returned True \<longrightarrow> available_tools (obj r') = available_tools (obj r)) \<and>
     (out = Returned True \<longrightarrow> listed_catalog en ''stdio'' k = Some (available_tools (obj r')))"
  by (auto simp: connect_stdio_def listed_catalog_def Let_def run_upd_defs
           split: stdio_server.splits option.splits dest!: await_Some)

lemma connect_http_catalog:
  "connect_http en T k r = (out, r') \<Longrightarrow>
     (out \<noteq> Returned True \<longrightarrow> available_tools (obj r') = available_tools (obj r)) \<and>
     (out = Returned True \<longrightarrow> listed_catalog en ''http'' k = Some (available_tools (obj r')))"
  by (auto simp: connect_http_def listed_catalog_def Let_def run_upd_defs
           split: http_server.splits http_body.splits option.splits if_splits
           dest!: await_Some)

lemma connect_facts:
  assumes "connect en T k r = (out, r')"
  shows "events r' = events r @ [Connect k]"
    and "server_type (obj r') = server_type (obj r)"
    and "reconnect_attempts (obj r') = reconnect_attempts (obj r)"
    and "timeout (obj r') = timeout (obj r)"
    and "clock r \<le> clock r'"
    and "out = Returned False \<Longrightarrow> \<not> connection_healthy (obj r')"
    and "out = Returned True \<Longrightarrow> connection_healthy (obj r')"
    and "out = Cancelled \<Longrightarrow> connection_healthy (obj r') = connection_healthy (obj r)"
  using assms
  by (auto simp: connect_def connect_stdio_def connect_http_def Let_def run_upd_defs
           split: stdio_server.splits http_server.splits http_body.splits option.splits
                  if_splits
           dest!: await_Some)

subsection \<open>The reconnection loop\<close>

lemma sleep_Some:
  "sleep T d r = Some r' \<Longrightarrow>
     obj r' = obj r \<and> events r' = events r @ [Sleep d] \<and> clock r' = clock r + d \<and> int (clock r + d) < T"
  by (auto simp: sleep_def log_event_def dest!: await_Some)

lemma attempts_simps [simp]:
  "attempts [] = 0"
  "attempts (xs @ ys) = attempts xs + attempts ys"
  "attempts (Connect k # xs) = Suc (attempts xs)"
  "attempts (Sleep d # xs) = attempts xs"
  by (simp_all add: attempts_def)

lemma attempts_failed_attempts [simp]: "attempts (failed_attempts k n) = n"
  by (induction n arbitrary: k) simp_all

lemma reconnect_loop_frame:
  "reconnect_loop en T n k r = (out, r') \<Longrightarrow>
     server_type (obj r') = server_type (obj r) \<and> timeout (obj r') = timeout (obj r)
     \<and> reconnect_attempts (obj r') = reconnect_attempts (obj r)"
proof (induction n arbitrary: k r)
  case 0
  then show ?case by simp
next
  case (Suc n)
  obtain o1 r1 where c: "connect en T k r = (o1, r1)" by (cases "connect en T k r")
  note f = connect_facts(2-4) [OF c]
  show ?case
  proof (cases o1)
    case Cancelled
    with Suc.prems c f show ?thesis by simp
  next
    case (Returned ok)
    show ?thesis
    proof (cases ok)
      case True
      with Suc.prems c f Returned show ?thesis by simp
    next
      case False
      show ?thesis
      proof (cases "sleep T 1 r1")
        case None
        with Suc.prems c f Returned False show ?thesis by (auto simp: log_event_def)
      next
        case (Some r2)
        from sleep_Some [OF Some] have o: "obj r2 = obj r1" by simp
        from Suc.prems c Returned False Some
        have "reconnect_loop en T n (Suc k) r2 = (out, r')" by simp
        from Suc.IH [OF this] o f show ?thesis by simp
      qed
    qed
  qed
qed


lemma reconnect_loop_False:
  "reconnect_loop en T n k r = (Returned False, r') \<Longrightarrow>
     events r' = events r @ failed_attempts k n \<and>
     (\<not> connection_healthy (obj r) \<longrightarrow> \<not> connection_healthy (obj r'))"
proof (induction n arbitrary: k r)
  case 0
  then show ?case by simp
next
  case (Suc n)
  obtain o1 r1 where c: "connect en T k r = (o1, r1)" by (cases "connect en T k r")
  note f = connect_facts(1) [OF c] connect_facts(6) [OF c]
  show ?case
  proof (cases o1)
    case Cancelled
    with Suc.prems c show ?thesis by simp
  next
    case (Returned ok)
    show ?thesis
    proof (cases ok)
      case True
      with Suc.prems c Returned show ?thesis by simp
    next
      case False
      show ?thesis
      proof (cases "sleep T 1 r1")
        case None
        with Suc.prems c Returned False show ?thesis by simp
      next
        case (Some r2)
        from sleep_Some [OF Some]
        have o: "events r2 = events r1 @ [Sleep 1]" "obj r2 = obj r1" by simp_all
        from Suc.prems c Returned False Some
        have "reconnect_loop en T n (Suc k) r2 = (Returned False, r')" by simp
        from Suc.IH [OF this] o f Returned False show ?thesis by simp
      qed
    qed
  qed
qed

lemma reconnect_loop_True:
  "reconnect_loop en T n k r = (Returned True, r') \<Longrightarrow> connection_healthy (obj r')"
proof (induction n arbitrary: k r)
  case 0
  then show ?case by simp
next
  case (Suc n)
  obtain o1 r1 where c: "connect en T k r = (o1, r1)" by (cases "connect en T k r")
  note f = connect_facts(7) [OF c]
  show ?case
  proof (cases o1)
    case Cancelled
    with Suc.prems c show ?thesis by simp
  next
    case (Returned ok)
    show ?thesis
    proof (cases ok)
      case True
      with Suc.prems c Returned f show ?thesis by simp
    next
      case False
      show ?thesis
      proof (cases "sleep T 1 r1")
        case None
        with Suc.prems c Returned False show ?thesis by simp
      next
        case (Some r2)
        from Suc.prems c Returned False Some
        have "reconnect_loop en T n (Suc k) r2 = (Returned True, r')" by simp
        from Suc.IH [OF this] show ?thesis .
      qed
    qed
  qed
qed






lemma ensure_connection_False:
  "ensure_connection en T r = (Returned False, r') \<Longrightarrow>
     \<not> connection_healthy (obj r) \<and> \<not> connection_healthy (obj r') \<and>
     events r' = events r @ failed_attempts 0 (nat (reconnect_attempts (obj r)))"
  by (auto simp: ensure_connection_def split: if_splits dest: reconnect_loop_False)

lemma ensure_connection_True:
  "ensure_connection en T r = (Returned True, r') \<Longrightarrow> connection_healthy (obj r')"
  by (auto simp: ensure_connection_def split: if_splits dest: reconnect_loop_True)


subsection \<open>Executing a call\<close>

lemma failed_simps [simp]:
  "success (failed name msg b) = False"
  "result (failed name msg b) = None"
  "error (failed name msg b) = Some msg"
  "tool_name (failed name msg b) = name"
  "info (failed name msg b) = get_server_info b"
  "success (succeeded name v b) = True"
  "result (succeeded name v b) = Some v"
  "error (succeeded name v b) = None"
  "tool_name (succeeded name v b) = name"
  "info (succeeded name v b) = get_server_info b"
  by (simp_all add: failed_def succeeded_def)

lemma connected_info [simp]: "connected (get_server_info b) = connection_healthy b"
  by (simp add: get_server_info_def)

lemma msg_distinct:
  "timeout_msg T \<noteq> connection_failed_msg"
  "timeout_msg T \<noteq> execution_error_msg e"
  "unknown_tool_msg n ks \<noteq> connection_failed_msg"
  "unknown_tool_msg n ks \<noteq> execution_error_msg e"
  "execution_error_msg e \<noteq> connection_failed_msg"
  "execution_failed_msg e \<noteq> connection_failed_msg"
  "execution_failed_msg e \<noteq> execution_error_msg e'"
  "execution_failed_msg e \<noteq> timeout_msg T"
  "execution_failed_msg e \<noteq> unknown_tool_msg n ks"
  by (simp_all add: timeout_msg_def connection_failed_msg_def execution_error_msg_def
        unknown_tool_msg_def execution_failed_msg_def)

lemma execute_async_branches:
  assumes "execute_async en T name args r = (out, r')"
  shows "out = Cancelled
     \<or> (ensure_connection en T r = (Returned False, r')
          \<and> out = Returned (failed name connection_failed_msg (obj r')))
     \<or> (ensure_connection en T r = (Returned True, r')
          \<and> \<not> dict_contains name (available_tools (obj r'))
          \<and> out = Returned (failed name
                 (unknown_tool_msg name (dict_keys (available_tools (obj r')))) (obj r')))
     \<or> (\<exists>v. out = Returned (succeeded name v (obj r')))
     \<or> (\<exists>e. out = Returned (failed name (execution_error_msg e) (obj r'))
             \<and> \<not> connection_healthy (obj r'))"
  using assms
  by (auto simp: execute_async_def set_healthy_def
           split: prod.splits outcome.splits bool.splits sum.splits if_splits)

lemma execute_stdio_frame:
  "execute_stdio en T name args r = (out, r') \<Longrightarrow>
     obj r' = obj r \<and> attempts (events r') = attempts (events r)"
  by (auto simp: execute_stdio_def Let_def log_event_def attempts_def
           split: stdio_call.splits option.splits list.splits stdio_block.splits
           dest!: await_Some)

lemma execute_http_frame:
  "execute_http en T name args r = (out, r') \<Longrightarrow>
     obj r' = obj r \<and> attempts (events r') = attempts (events r)"
  by (auto simp: execute_http_def Let_def log_event_def attempts_def
           split: http_call.splits option.splits list.splits
           dest!: await_Some)





lemma execute_async_healthy:
  assumes "connection_healthy (obj r)"
    and "execute_async en T name args r = (out, r')"
  shows "obj r' = obj r \<or> (\<exists>e. out = Returned (failed name (execution_error_msg e) (obj r')))"
  using assms
  by (auto simp: execute_async_def ensure_connection_def set_healthy_def
           split: prod.splits outcome.splits bool.splits sum.splits if_splits
           dest!: execute_stdio_frame execute_http_frame)


lemma float_limit_big: "2 ^ 64 < float_limit"
  by (simp add: float_limit_def)

lemma small_timeout: "T \<le> 2 ^ 64 \<Longrightarrow> \<not> float_limit \<le> T"
  using float_limit_big by simp


lemma try_execute_cases:
  assumes "try_execute lr en b name args T = (res, b', ev)"
  shows "res = failed name (timeout_msg T) b'
       \<or> (\<exists>e. res = failed name (execution_failed_msg e) b') \<and> b' = b \<and> ev = []
            \<and> (lr \<or> float_limit \<le> T)
       \<or> (\<exists>r'. execute_async en T name args \<lparr>obj = b, clock = 0, events = []\<rparr> = (Returned res, r')
               \<and> b' = obj r' \<and> ev = events r' \<and> \<not> lr \<and> 0 < T \<and> T < float_limit)"
  using assms
  by (auto simp: try_execute_def run_coroutine_def
           split: if_splits prod.splits outcome.splits)

lemma run_with_deadline_cases:
  assumes "run_with_deadline en b name args T = (res, b', ev)"
  shows "res = failed name (timeout_msg T) b'
       \<or> (\<exists>e. res = failed name (execution_failed_msg e) b') \<and> b' = b \<and> ev = []
            \<and> float_limit \<le> T
       \<or> (\<exists>r'. execute_async en T name args \<lparr>obj = b, clock = 0, events = []\<rparr> = (Returned res, r')
               \<and> b' = obj r' \<and> ev = events r' \<and> 0 < T \<and> T < float_limit)"
  using try_execute_cases [of False en b name args T res b' ev] assms
  by (simp add: run_with_deadline_def)


lemma run_with_deadline_in_range:
  assumes "0 < T" and "T < float_limit"
  shows "run_with_deadline en b name args T =
           (case execute_async en T name args \<lparr>obj = b, clock = 0, events = []\<rparr> of
              (Returned res, r) \<Rightarrow> (res, obj r, events r)
            | (Cancelled, r) \<Rightarrow> (failed name (timeout_msg T) (obj r), obj r, events r))"
  using assms
  by (auto simp: run_with_deadline_def try_execute_def run_coroutine_def
           split: prod.splits outcome.splits)

subsection \<open>The unknown-tool message\<close>

lemma printable_not_control:
  "printable c \<Longrightarrow> c \<noteq> CHR 0x09 \<and> c \<noteq> CHR 0x0A \<and> c \<noteq> CHR 0x0D"
  by (auto simp: printable_def)

lemma concat_repr_char_plain:
  "\<forall>c\<in>set s. printable c \<and> c \<noteq> bsl \<and> c \<noteq> q \<Longrightarrow> concat (map (repr_char q) s) = s"
  by (induction s) (auto simp: repr_char_def dest: printable_not_control)

lemma py_repr_plain:
  assumes "needs_no_escape s"
  shows "py_repr s = [repr_quote s] @ s @ [repr_quote s]"
proof -
  from assms have "\<forall>c\<in>set s. printable c \<and> c \<noteq> bsl \<and> c \<noteq> repr_quote s"
    by (auto simp: needs_no_escape_def repr_quote_def list_all_iff)
  from concat_repr_char_plain [OF this] show ?thesis by (simp add: py_repr_def)
qed

lemma sublist_chain: "sublist xs ys \<Longrightarrow> sublist ys zs \<Longrightarrow> sublist xs zs"
proof -
  assume "sublist xs ys" "sublist ys zs"
  then obtain p1 s1 p2 s2 where "ys = p1 @ xs @ s1" "zs = p2 @ ys @ s2"
    by (auto simp: sublist_def)
  then have "zs = (p2 @ p1) @ xs @ (s1 @ s2)" by simp
  then show ?thesis unfolding sublist_def by blast
qed

lemma sublist_join_comma: "x \<in> set xs \<Longrightarrow> sublist x (join_comma xs)"
proof (induction xs rule: join_comma.induct)
  case 1
  then show ?case by simp
next
  case (2 y)
  then show ?case by simp
next
  case (3 y z zs)
  show ?case
  proof (cases "x = y")
    case True
    then show ?thesis by simp
  next
    case False
    with 3 have "sublist x (join_comma (z # zs))" by simp
    moreover have "sublist (join_comma (z # zs)) ((y @ '', '') @ join_comma (z # zs))"
      by (rule sublist_append_leftI)
    ultimately have "sublist x ((y @ '', '') @ join_comma (z # zs))"
      by (rule sublist_chain)
    then show ?thesis by simp
  qed
qed

lemma unknown_tool_msg_lists_repr:
  assumes "k \<in> set keys"
  shows "sublist (py_repr k) (unknown_tool_msg name keys)"
proof -
  from assms have "py_repr k \<in> set (map py_repr keys)" by simp
  from sublist_join_comma [OF this] obtain ps ss where
    "join_comma (map py_repr keys) = ps @ py_repr k @ ss" by (auto simp: sublist_def)
  then have "unknown_tool_msg name keys =
      (''Tool '' @ [sq] @ name @ [sq] @ '' not found on server. Available: '' @ ''['' @ ps)
        @ py_repr k @ (ss @ '']'')"
    by (simp add: unknown_tool_msg_def py_list_repr_def)
  then show ?thesis unfolding sublist_def by blast
qed

lemma unknown_tool_msg_lists_plain:
  assumes "k \<in> set keys" and "needs_no_escape k"
  shows "sublist k (unknown_tool_msg name keys)"
proof -
  have "sublist k (py_repr k)"
    unfolding py_repr_plain [OF assms(2)] by (rule sublist_appendI)
  then show ?thesis
    using unknown_tool_msg_lists_repr [OF assms(1)] by (rule sublist_chain)
qed

subsection \<open>The scenarios, evaluated\<close>

lemmas scenario_defs =
  stdio_bridge_def http_bridge_def echo_tool_def echo_catalog_def healthy_bridge_def
  backslash_bridge_def dead_server_def hung_server_def flaky_server_def echo_server_def
  malformed_server_def failing_server_def fresh_http_bridge_def closed_loop_server_def

lemmas eval_defs =
  execute_def run_with_deadline_def try_execute_def run_coroutine_def small_timeout
  effective_timeout_def execute_async_def
  ensure_connection_def connect_def connect_stdio_def connect_http_def sleep_def await_def
  run_upd_defs execute_stdio_def execute_http_def dict_contains_def dict_keys_def
  failed_def succeeded_def get_server_info_def scenario_defs eval_nat_numeral


lemma dead_run:
  "execute dead_server stdio_bridge ''echo'' None None =
     (failed ''echo'' connection_failed_msg stdio_bridge, stdio_bridge,
      [Connect 0, Sleep 1, Connect 1, Sleep 1, Connect 2, Sleep 1])"
  by (simp add: eval_defs)


lemma unknown_run:
  "execute echo_server healthy_bridge ''nope'' None None =
     (failed ''nope'' (unknown_tool_msg ''nope'' [''echo'']) healthy_bridge, healthy_bridge, [])"
  by (simp add: eval_defs)

lemma failing_run:
  "execute failing_server healthy_bridge ''echo'' None None =
     (failed ''echo'' (execution_error_msg ''boom'') (healthy_bridge\<lparr>connection_healthy := False\<rparr>),
      healthy_bridge\<lparr>connection_healthy := False\<rparr>, [CallTool ''echo'' []])"
  by (simp add: eval_defs)

lemma backslash_run:
  "execute echo_server backslash_bridge ''nope'' None None =
     (failed ''nope'' (unknown_tool_msg ''nope'' [[CHR ''a'', bsl, CHR ''b'']]) backslash_bridge,
      backslash_bridge, [])"
  by (simp add: eval_defs)

lemma backslash_msg:
  "unknown_tool_msg ''nope'' [[CHR ''a'', bsl, CHR ''b'']] =
     ''Tool '' @ [sq] @ ''nope'' @ [sq] @ '' not found on server. Available: [''
       @ [sq, CHR ''a'', bsl, bsl, CHR ''b'', sq] @ '']''"
  by (simp add: unknown_tool_msg_def py_list_repr_def py_repr_def repr_quote_def repr_char_def
        printable_def)

lemma backslash_not_listed:
  "\<not> sublist [CHR ''a'', bsl, CHR ''b''] (unknown_tool_msg ''nope'' [[CHR ''a'', bsl, CHR ''b'']])"
  by (simp add: backslash_msg sublist_code prefix_code)


lemma echo_plain: "needs_no_escape ''echo''"
  by (simp add: needs_no_escape_def printable_def)

lemma reconnect_run:
  "ensure_connection echo_server 30 \<lparr>obj = stdio_bridge, clock = 0, events = []\<rparr> =
     (Returned True, \<lparr>obj = healthy_bridge, clock = 0, events = [Connect 0]\<rparr>)"
  by (simp add: eval_defs)

subsection \<open>Deadlines, handlers and further scenarios\<close>










lemma negative_run:
  "execute echo_server healthy_bridge ''nope'' None (Some (- 5)) =
     (failed ''nope'' (timeout_msg (- 5)) healthy_bridge, healthy_bridge, [])"
  by (simp add: execute_def run_with_deadline_def try_execute_def run_coroutine_def
        effective_timeout_def)

lemma overflow_run:
  "execute echo_server healthy_bridge ''nope'' None (Some (2 ^ 1024)) =
     (failed ''nope'' (execution_failed_msg ''int too large to convert to float'')
        healthy_bridge, healthy_bridge, [])"
  by (simp add: execute_def run_with_deadline_def try_execute_def run_coroutine_def
        effective_timeout_def float_limit_def)

lemma timeout_msg_minus_5: "timeout_msg (- 5) = ''Tool execution timed out after -5 seconds''"
  by (simp add: timeout_msg_def str_int_def digit_char_def)

lemma http_run:
  "execute closed_loop_server fresh_http_bridge ''echo'' None None =
     (succeeded ''echo'' (PyStr ''Echo: hi'')
        (http_bridge\<lparr>available_tools := echo_catalog, connection_healthy := True\<rparr>),
      http_bridge\<lparr>available_tools := echo_catalog, connection_healthy := True\<rparr>,
      [Connect 0, CallTool ''echo'' []])"
  by (simp add: eval_defs)

lemma slow_run:
  "execute echo_server healthy_bridge ''echo'' None (Some 1) =
     (failed ''echo'' (timeout_msg 1) healthy_bridge, healthy_bridge, [CallTool ''echo'' []])"
  by (simp add: eval_defs)

subsection \<open>The claims\<close>




text \<open>
  C2, as the specification states it: every failure that \<^verbatim>\<open>execute\<close> returns
  leaves the health flag unhealthy. The unknown-tool branch returns a failure and does
  not touch the flag: on a healthy bridge it is still healthy afterwards.
\<close>

theorem unknown_tool_keeps_healthy:
  "success (fst (execute echo_server healthy_bridge ''nope'' None None)) = False \<and>
   connection_healthy (fst (snd (execute echo_server healthy_bridge ''nope'' None None)))"
  by (simp add: unknown_run) (simp add: healthy_bridge_def)

text \<open>
  C2, amended: a call that returns the connection failure or an execution error leaves
  the health flag unhealthy, and the server information in its result says so; a call
  on a healthy bridge that returns anything else (a success, the unknown-tool failure
  or the timeout failure) leaves the object as it was, the health flag healthy.
\<close>

theorem failure_marks_unhealthy:
  assumes "execute en b name args t = (res, b', ev)"
  shows "(error res = Some connection_failed_msg \<or> (\<exists>e. error res = Some (execution_error_msg e))
            \<longrightarrow> \<not> connection_healthy b' \<and> \<not> connected (info res)) \<and>
         (connection_healthy b \<and> (\<forall>e. error res \<noteq> Some (execution_error_msg e))
            \<longrightarrow> b' = b \<and> connected (info res))"
proof -
  let ?T = "effective_timeout t (timeout b)"
  let ?a = "case args of None \<Rightarrow> [] | Some a \<Rightarrow> a"
  let ?r = "\<lparr>obj = b, clock = 0, events = []\<rparr>"
  from assms(1) have r: "run_with_deadline en b name ?a ?T = (res, b', ev)"
    by (simp add: execute_def)
  have p1: "\<not> connection_healthy b' \<and> \<not> connected (info res)"
    if c: "error res = Some connection_failed_msg \<or> (\<exists>e. error res = Some (execution_error_msg e))"
    using run_with_deadline_cases [OF r]
  proof (elim disjE)
    assume "res = failed name (timeout_msg ?T) b'"
    with c show ?thesis by (auto simp: msg_distinct)
  next
    assume "(\<exists>e. res = failed name (execution_failed_msg e) b') \<and> b' = b \<and> ev = []
              \<and> float_limit \<le> ?T"
    with c show ?thesis by (auto simp: msg_distinct)
  next
    assume "\<exists>r'. execute_async en ?T name ?a ?r = (Returned res, r') \<and> b' = obj r'
              \<and> ev = events r' \<and> 0 < ?T \<and> ?T < float_limit"
    then obtain r' where e: "execute_async en ?T name ?a ?r = (Returned res, r')"
      and b': "b' = obj r'" by blast
    from execute_async_branches [OF e] c b' show ?thesis
      by (auto simp: msg_distinct dest: ensure_connection_False)
  qed
  have p2: "b' = b \<and> connected (info res)"
    if h: "connection_healthy b" and n: "\<forall>e. error res \<noteq> Some (execution_error_msg e)"
  proof -
    have "b' = b \<and> info res = get_server_info b'"
      using run_with_deadline_cases [OF r]
    proof (elim disjE)
      assume "(\<exists>e. res = failed name (execution_failed_msg e) b') \<and> b' = b \<and> ev = []
                \<and> float_limit \<le> ?T"
      then show ?thesis by auto
    next
      assume a: "res = failed name (timeout_msg ?T) b'"
      have "b' = b"
      proof (cases "0 < ?T \<and> ?T < float_limit")
        case True
        obtain out r' where e: "execute_async en ?T name ?a ?r = (out, r')"
          by (cases "execute_async en ?T name ?a ?r")
        from h have h': "connection_healthy (obj ?r)" by simp
        from execute_async_healthy [OF h' e] r True e n show ?thesis
          by (auto simp: run_with_deadline_in_range split: outcome.splits)
      next
        case False
        with r show ?thesis
          by (auto simp: run_with_deadline_def try_execute_def run_coroutine_def
                   split: if_splits)
      qed
      with a show ?thesis by simp
    next
      assume "\<exists>r'. execute_async en ?T name ?a ?r = (Returned res, r') \<and> b' = obj r'
                \<and> ev = events r' \<and> 0 < ?T \<and> ?T < float_limit"
      then obtain r' where e: "execute_async en ?T name ?a ?r = (Returned res, r')"
        and b': "b' = obj r'" by blast
      from h have h': "connection_healthy (obj ?r)" by simp
      from execute_async_healthy [OF h' e] n b' have "b' = b" by auto
      moreover from execute_async_branches [OF e] b' have "info res = get_server_info b'"
        by auto
      ultimately show ?thesis by simp
    qed
    with h show ?thesis by simp
  qed
  from p1 p2 show ?thesis by blast
qed

theorem failure_marks_unhealthy_witness:
  "error (fst (execute dead_server stdio_bridge ''echo'' None None))
     = Some connection_failed_msg \<and>
   \<not> connection_healthy (fst (snd (execute dead_server stdio_bridge ''echo'' None None))) \<and>
   error (fst (execute failing_server healthy_bridge ''echo'' None None))
     = Some (execution_error_msg ''boom'') \<and>
   \<not> connection_healthy (fst (snd (execute failing_server healthy_bridge ''echo'' None None))) \<and>
   connection_healthy healthy_bridge \<and>
   fst (snd (execute echo_server healthy_bridge ''nope'' None None)) = healthy_bridge"
proof -
  have a: "error (fst (execute dead_server stdio_bridge ''echo'' None None))
             = Some connection_failed_msg"
    by (simp add: dead_run)
  have b: "error (fst (execute failing_server healthy_bridge ''echo'' None None))
             = Some (execution_error_msg ''boom'')"
    by (simp add: failing_run)
  have c: "\<forall>e. error (fst (execute echo_server healthy_bridge ''nope'' None None))
             \<noteq> Some (execution_error_msg e)"
    by (simp add: unknown_run msg_distinct)
  have h: "connection_healthy healthy_bridge" by (simp add: healthy_bridge_def)
  have e1: "execute dead_server stdio_bridge ''echo'' None None
             = (fst (execute dead_server stdio_bridge ''echo'' None None),
                fst (snd (execute dead_server stdio_bridge ''echo'' None None)),
                snd (snd (execute dead_server stdio_bridge ''echo'' None None)))"
    by simp
  have e2: "execute failing_server healthy_bridge ''echo'' None None
             = (fst (execute failing_server healthy_bridge ''echo'' None None),
                fst (snd (execute failing_server healthy_bridge ''echo'' None None)),
                snd (snd (execute failing_server healthy_bridge ''echo'' None None)))"
    by simp
  have e3: "execute echo_server healthy_bridge ''nope'' None None
             = (fst (execute echo_server healthy_bridge ''nope'' None None),
                fst (snd (execute echo_server healthy_bridge ''nope'' None None)),
                snd (snd (execute echo_server healthy_bridge ''nope'' None None)))"
    by simp
  from failure_marks_unhealthy [OF e1] failure_marks_unhealthy [OF e2]
    failure_marks_unhealthy [OF e3] a b c h show ?thesis by blast
qed

text \<open>
  C3, as the specification states it: the effective timeout is the caller's override
  when it is present and positive, and the configured default otherwise. The code
  computes \<^verbatim>\<open>timeout or self.timeout\<close>, so a negative override is truthy and is
  used: with the default 30 and the override -5 the effective timeout is -5, not 30.
\<close>

theorem effective_timeout_negative_override:
  "effective_timeout (Some (- 5)) 30 \<noteq> (if (0::int) < - 5 then - 5 else 30)"
  by (simp add: effective_timeout_def)

text \<open>
  C3, amended: every call of \<^verbatim>\<open>execute\<close> runs under the caller's override when it
  is present and not zero (so, in particular, when it is positive), and under the
  configured default when the override is absent or zero.
\<close>

theorem execute_effective_timeout:
  "execute en b name args t =
     run_with_deadline en b name (case args of None \<Rightarrow> [] | Some a \<Rightarrow> a)
       (case t of None \<Rightarrow> timeout b | Some v \<Rightarrow> if v = 0 then timeout b else v)"
  by (simp add: execute_def effective_timeout_def)

text \<open>
  C4, as the specification states it: for every tool name that is not in the catalog,
  \<^verbatim>\<open>execute\<close> on a healthy connection returns the unknown-tool failure, and the
  message contains every name of the catalog verbatim. Three inputs say otherwise.
  The message renders the list of names as Python does, with \<^verbatim>\<open>repr\<close> of each
  name, which escapes a backslash: for the catalog holding the one name made of
  \<open>a\<close>, a backslash and \<open>b\<close>, the message shows the name with two backslashes
  and does not contain the name itself. With the timeout -5 the coroutine is cancelled
  before it starts and the result is the timeout failure. With the timeout
  \<open>2 ^ 1024\<close>, \<^verbatim>\<open>wait_for\<close> raises before the coroutine starts and the result
  is the failure of the last handler of \<^verbatim>\<open>execute\<close>.
\<close>

theorem unknown_tool_backslash_name:
  "connection_healthy backslash_bridge \<and>
   dict_keys (available_tools backslash_bridge) = [[CHR ''a'', bsl, CHR ''b'']] \<and>
   \<not> dict_contains ''nope'' (available_tools backslash_bridge) \<and>
   error (fst (execute echo_server backslash_bridge ''nope'' None None))
     = Some (''Tool '' @ [sq] @ ''nope'' @ [sq] @ '' not found on server. Available: [''
             @ [sq, CHR ''a'', bsl, bsl, CHR ''b'', sq] @ '']'') \<and>
   \<not> sublist [CHR ''a'', bsl, CHR ''b'']
       (the (error (fst (execute echo_server backslash_bridge ''nope'' None None)))) \<and>
   connection_healthy healthy_bridge \<and>
   \<not> dict_contains ''nope'' (available_tools healthy_bridge) \<and>
   error (fst (execute echo_server healthy_bridge ''nope'' None (Some (- 5))))
     = Some ''Tool execution timed out after -5 seconds'' \<and>
   error (fst (execute echo_server healthy_bridge ''nope'' None (Some (2 ^ 1024))))
     = Some ''Execution failed: int too large to convert to float''"
proof -
  have a: "connection_healthy backslash_bridge \<and>
     dict_keys (available_tools backslash_bridge) = [[CHR ''a'', bsl, CHR ''b'']] \<and>
     \<not> dict_contains ''nope'' (available_tools backslash_bridge)"
    by (simp add: backslash_bridge_def dict_keys_def dict_contains_def)
  have b: "error (fst (execute echo_server backslash_bridge ''nope'' None None))
     = Some (''Tool '' @ [sq] @ ''nope'' @ [sq] @ '' not found on server. Available: [''
             @ [sq, CHR ''a'', bsl, bsl, CHR ''b'', sq] @ '']'')"
    by (simp only: backslash_run fst_conv failed_simps backslash_msg)
  have c: "\<not> sublist [CHR ''a'', bsl, CHR ''b'']
       (the (error (fst (execute echo_server backslash_bridge ''nope'' None None))))"
    using backslash_not_listed by (simp add: backslash_run)
  have d: "connection_healthy healthy_bridge \<and>
     \<not> dict_contains ''nope'' (available_tools healthy_bridge)"
    by (simp add: healthy_bridge_def echo_catalog_def dict_contains_def)
  have e: "error (fst (execute echo_server healthy_bridge ''nope'' None (Some (- 5))))
     = Some ''Tool execution timed out after -5 seconds''"
    by (simp only: negative_run fst_conv failed_simps timeout_msg_minus_5)
  have f: "error (fst (execute echo_server healthy_bridge ''nope'' None (Some (2 ^ 1024))))
     = Some ''Execution failed: int too large to convert to float''"
    by (simp only: overflow_run fst_conv failed_simps execution_failed_msg_def) simp
  from a b c d e f show ?thesis by blast
qed

text \<open>
  C4, amended: with an effective timeout that is positive and below the float limit,
  when the connection is healthy or is repaired before the deadline, and the tool name
  is not in the catalog as it then stands, \<^verbatim>\<open>execute\<close> returns the unknown-tool
  failure, changes nothing after the repair and calls no tool. Its message contains
  the \<^verbatim>\<open>repr\<close> of every name in the catalog, and the name itself, verbatim,
  whenever \<^verbatim>\<open>repr\<close> has nothing to escape in it (every character printable, no
  backslash, not both kinds of quote).
\<close>

theorem unknown_tool_lists_catalog:
  assumes "0 < effective_timeout t (timeout b)"
    and "effective_timeout t (timeout b) < float_limit"
    and "ensure_connection en (effective_timeout t (timeout b)) \<lparr>obj = b, clock = 0, events = []\<rparr>
           = (Returned True, r1)"
    and "\<not> dict_contains name (available_tools (obj r1))"
  shows "execute en b name args t =
           (failed name (unknown_tool_msg name (dict_keys (available_tools (obj r1)))) (obj r1),
            obj r1, events r1) \<and>
         (\<forall>k\<in>set (dict_keys (available_tools (obj r1))).
            sublist (py_repr k) (unknown_tool_msg name (dict_keys (available_tools (obj r1)))) \<and>
            (needs_no_escape k \<longrightarrow>
               sublist k (unknown_tool_msg name (dict_keys (available_tools (obj r1))))))"
  using assms(3,4)
  by (auto simp: execute_def run_with_deadline_in_range [OF assms(1,2)] execute_async_def
           intro: unknown_tool_msg_lists_repr unknown_tool_msg_lists_plain)

theorem unknown_tool_lists_catalog_witness:
  "execute echo_server stdio_bridge ''nope'' None None =
     (failed ''nope'' (unknown_tool_msg ''nope'' [''echo'']) healthy_bridge, healthy_bridge,
      [Connect 0]) \<and>
   needs_no_escape ''echo'' \<and>
   sublist ''echo'' (unknown_tool_msg ''nope'' [''echo'']) \<and>
   sublist (py_repr ''echo'') (unknown_tool_msg ''nope'' [''echo''])"
proof -
  have t: "0 < effective_timeout None (timeout stdio_bridge)"
    by (simp add: effective_timeout_def stdio_bridge_def)
  have l: "effective_timeout None (timeout stdio_bridge) < float_limit"
    using float_limit_big by (simp add: effective_timeout_def stdio_bridge_def)
  have c: "ensure_connection echo_server (effective_timeout None (timeout stdio_bridge))
             \<lparr>obj = stdio_bridge, clock = 0, events = []\<rparr>
           = (Returned True, \<lparr>obj = healthy_bridge, clock = 0, events = [Connect 0]\<rparr>)"
    using reconnect_run by (simp add: effective_timeout_def stdio_bridge_def)
  have n: "\<not> dict_contains ''nope''
             (available_tools (obj \<lparr>obj = healthy_bridge, clock = 0, events = [Connect 0]\<rparr>))"
    by (simp add: dict_contains_def healthy_bridge_def echo_catalog_def)
  have k: "dict_keys (available_tools healthy_bridge) = [''echo'']"
    by (simp add: dict_keys_def healthy_bridge_def echo_catalog_def)
  from unknown_tool_lists_catalog [OF t l c n, of None] k echo_plain show ?thesis by simp
qed





text \<open>
  C7, as the specification states it: validation fails with a configuration error
  (\<^verbatim>\<open>ValueError\<close>) whenever stdio is selected with an empty command. The code checks
  the transport library first: with stdio selected, no command and the MCP client
  missing, it raises the dependency error (\<^verbatim>\<open>ImportError\<close>) instead.
\<close>

theorem validate_config_dependency_first:
  "\<not> is_ValueError (validate_config False True (stdio_bridge\<lparr>server_command := None\<rparr>))"
  by (simp add: validate_config_def stdio_bridge_def is_ValueError_def)

text \<open>
  C7, amended: validation fails with a configuration error when the transport kind is
  neither stdio nor http, when stdio is selected, its library is available and the
  command is empty, and when http is selected, its library is available and the URL is
  empty; it fails with the dependency error whenever the library of the selected
  transport is unavailable. A bridge that is constructed has no session, no HTTP client,
  an empty catalog and is not connected: construction does not touch the transport.
\<close>

theorem validate_config_errors:
  "(server_type b \<noteq> ''stdio'' \<and> server_type b \<noteq> ''http''
      \<longrightarrow> is_ValueError (validate_config sa ha b)) \<and>
   (server_type b = ''stdio'' \<and> sa \<and> falsy (server_command b)
      \<longrightarrow> is_ValueError (validate_config sa ha b)) \<and>
   (server_type b = ''http'' \<and> ha \<and> falsy (server_url b)
      \<longrightarrow> is_ValueError (validate_config sa ha b)) \<and>
   (server_type b = ''stdio'' \<and> \<not> sa \<or> server_type b = ''http'' \<and> \<not> ha
      \<longrightarrow> is_ImportError (validate_config sa ha b)) \<and>
   (case init sa ha ty cmd ar url tmo n of
      Inl e \<Rightarrow> True
    | Inr b' \<Rightarrow> session b' = None \<and> http_client b' = None \<and> available_tools b' = []
                \<and> \<not> connection_healthy b')"
  by (auto simp add: validate_config_def is_ValueError_def is_ImportError_def init_def Let_def
           split: sum.splits)

theorem validate_config_errors_witness:
  "is_ValueError (validate_config True True (stdio_bridge\<lparr>server_type := ''grpc''\<rparr>)) \<and>
   is_ValueError (validate_config True True (stdio_bridge\<lparr>server_command := Some []\<rparr>)) \<and>
   is_ValueError (validate_config True True (http_bridge\<lparr>server_url := None\<rparr>)) \<and>
   is_ImportError (validate_config False True stdio_bridge) \<and>
   is_ImportError (validate_config True False http_bridge) \<and>
   init True True ''stdio'' (Some ''echo-server'') [] None 30 3 = Inr stdio_bridge"
proof -
  have a: "is_ValueError (validate_config True True (stdio_bridge\<lparr>server_type := ''grpc''\<rparr>))"
    using validate_config_errors [of "stdio_bridge\<lparr>server_type := ''grpc''\<rparr>" True True]
    by (simp add: stdio_bridge_def)
  have b: "is_ValueError (validate_config True True (stdio_bridge\<lparr>server_command := Some []\<rparr>))"
    using validate_config_errors [of "stdio_bridge\<lparr>server_command := Some []\<rparr>" True True]
    by (simp add: stdio_bridge_def falsy_def)
  have c: "is_ValueError (validate_config True True (http_bridge\<lparr>server_url := None\<rparr>))"
    using validate_config_errors [of "http_bridge\<lparr>server_url := None\<rparr>" True True]
    by (simp add: http_bridge_def falsy_def)
  have d: "is_ImportError (validate_config False True stdio_bridge)"
    using validate_config_errors [of stdio_bridge False True]
    by (simp add: stdio_bridge_def)
  have e: "is_ImportError (validate_config True False http_bridge)"
    using validate_config_errors [of http_bridge True False]
    by (simp add: http_bridge_def)
  have f: "init True True ''stdio'' (Some ''echo-server'') [] None 30 3 = Inr stdio_bridge"
    using validate_config_errors
            [of stdio_bridge True True "''stdio''" "Some ''echo-server''" "[]" None 30 3]
    by (simp add: init_def validate_config_def stdio_bridge_def falsy_def)
  from a b c d e f show ?thesis by simp
qed

text \<open>
  C8: for every tool name and timeout, \<^verbatim>\<open>execute\<close> called with \<^verbatim>\<open>arguments=None\<close>
  returns what \<^verbatim>\<open>execute\<close> called with the empty dictionary returns, leaves the
  object in the same state and performs the same operations: the transport is handed
  the empty dictionary in both cases.
\<close>

theorem execute_none_arguments:
  "execute en b name None t = execute en b name (Some []) t"
  by (simp add: execute_def)

text \<open>
  C9: \<^verbatim>\<open>close\<close> is to return without raising and leave the health flag
  unhealthy. The code does not: after one successful call over HTTP the bridge holds
  a client and is healthy, and when \<^verbatim>\<open>asyncio.run(self._http_client.aclose())\<close>
  raises (the client belongs to the event loop of the finished call), \<^verbatim>\<open>close\<close>
  raises with it, before the health flag is cleared: the bridge is still healthy.
\<close>

theorem close_raises_keeps_health:
  "success (fst (execute closed_loop_server fresh_http_bridge ''echo'' None None)) \<and>
   connection_healthy
     (fst (snd (execute closed_loop_server fresh_http_bridge ''echo'' None None))) \<and>
   close False closed_loop_server
       (fst (snd (execute closed_loop_server fresh_http_bridge ''echo'' None None)))
     = (Some (RuntimeError ''Event loop is closed''),
        fst (snd (execute closed_loop_server fresh_http_bridge ''echo'' None None)),
        [Aclose])"
  by (simp add: http_run) (simp add: close_def scenario_defs)

text \<open>
  C10: a connection attempt over either transport that does not succeed (it fails at
  the session or client setup, the handshake, the tool-list request or on a malformed
  tool list, or it is cut short by the deadline) leaves the catalog as it was; an
  attempt that succeeds replaces the catalog by the one the server's answer parses to,
  whatever the catalog held before.
\<close>

theorem connect_failure_keeps_catalog:
  "(fst (connect_stdio en T k r) \<noteq> Returned True \<longrightarrow>
      available_tools (obj (snd (connect_stdio en T k r))) = available_tools (obj r)) \<and>
   (fst (connect_stdio en T k r) = Returned True \<longrightarrow>
      listed_catalog en ''stdio'' k
        = Some (available_tools (obj (snd (connect_stdio en T k r))))) \<and>
   (fst (connect_http en T k r) \<noteq> Returned True \<longrightarrow>
      available_tools (obj (snd (connect_http en T k r))) = available_tools (obj r)) \<and>
   (fst (connect_http en T k r) = Returned True \<longrightarrow>
      listed_catalog en ''http'' k
        = Some (available_tools (obj (snd (connect_http en T k r)))))"
  using connect_stdio_catalog
          [of en T k r "fst (connect_stdio en T k r)" "snd (connect_stdio en T k r)"]
        connect_http_catalog
          [of en T k r "fst (connect_http en T k r)" "snd (connect_http en T k r)"]
  by simp

theorem connect_failure_keeps_catalog_witness:
  "available_tools (obj (snd (connect_stdio malformed_server 30 0 \<lparr>obj = healthy_bridge, clock = 0, events = []\<rparr>))) = echo_catalog \<and>
   available_tools (obj (snd (connect_stdio echo_server 30 0 \<lparr>obj = stdio_bridge, clock = 0, events = []\<rparr>))) = echo_catalog \<and>
   available_tools (obj (snd (connect_http malformed_server 30 0 \<lparr>obj = http_bridge\<lparr>available_tools := echo_catalog\<rparr>, clock = 0, events = []\<rparr>))) = echo_catalog \<and>
   available_tools (obj (snd (connect_http echo_server 30 0 \<lparr>obj = http_bridge, clock = 0, events = []\<rparr>))) = echo_catalog"
proof -
  have a: "fst (connect_stdio malformed_server 30 0 \<lparr>obj = healthy_bridge, clock = 0, events = []\<rparr>) \<noteq> Returned True"
    by (simp add: connect_stdio_def scenario_defs await_def run_upd_defs)
  have b: "listed_catalog echo_server ''stdio'' 0 = Some echo_catalog \<and> fst (connect_stdio echo_server 30 0 \<lparr>obj = stdio_bridge, clock = 0, events = []\<rparr>) = Returned True"
    by (simp add: connect_stdio_def listed_catalog_def scenario_defs await_def run_upd_defs)
  have c: "fst (connect_http malformed_server 30 0 \<lparr>obj = http_bridge\<lparr>available_tools := echo_catalog\<rparr>, clock = 0, events = []\<rparr>) \<noteq> Returned True"
    by (simp add: connect_http_def scenario_defs await_def run_upd_defs)
  have d: "listed_catalog echo_server ''http'' 0 = Some echo_catalog \<and> fst (connect_http echo_server 30 0 \<lparr>obj = http_bridge, clock = 0, events = []\<rparr>) = Returned True"
    by (simp add: connect_http_def listed_catalog_def scenario_defs await_def run_upd_defs)
  show ?thesis
    using a b c d
      connect_failure_keeps_catalog [of malformed_server 30 0 "\<lparr>obj = healthy_bridge, clock = 0, events = []\<rparr>"]
      connect_failure_keeps_catalog [of echo_server 30 0 "\<lparr>obj = stdio_bridge, clock = 0, events = []\<rparr>"]
      connect_failure_keeps_catalog [of malformed_server 30 0 "\<lparr>obj = http_bridge\<lparr>available_tools := echo_catalog\<rparr>, clock = 0, events = []\<rparr>"]
      connect_failure_keeps_catalog [of echo_server 30 0 "\<lparr>obj = http_bridge, clock = 0, events = []\<rparr>"]
    by (simp add: healthy_bridge_def)
qed

end
